theory Spec2Isabelle
  imports Complex_Main
begin

section \<open>Notebook parameters\<close>

text \<open>
  The constants of the notebook's parameter cell:
  \<^verbatim>\<open>
  VOCABULARY_SIZE = 10000
  MAX_REVIEW_LENGTH = 500
  EMBEDDING_DIM = 100
  EPOCHS = 2
  BATCH_SIZE = 128
  \<close>
\<close>

definition VOCABULARY_SIZE :: int where
  "VOCABULARY_SIZE = 10000"

definition MAX_REVIEW_LENGTH :: nat where
  "MAX_REVIEW_LENGTH = 500"

definition EMBEDDING_DIM :: nat where
  "EMBEDDING_DIM = 100"

definition EPOCHS :: nat where
  "EPOCHS = 2"

definition BATCH_SIZE :: nat where
  "BATCH_SIZE = 128"

section \<open>Python values used by the notebook\<close>

text \<open>
  Exceptions are values. \<open>IndexError\<close> is what indexing an array out of range raises;
  \<open>LibraryError\<close> stands for any exception raised inside a call of the external
  library (for example a failed download), carrying its message.
\<close>

datatype py_error = IndexError | LibraryError string

text \<open>
  A Python \<open>dict\<close> is given by its \<open>items()\<close>, in insertion order. \<open>dict(pairs)\<close>
  inserts the pairs from left to right, so that a later pair replaces an earlier one with
  the same key.
\<close>

definition dict_of :: "('k \<times> 'v) list \<Rightarrow> ('k \<rightharpoonup> 'v)" where
  "dict_of pairs = foldl (\<lambda>m (k, v). m(k \<mapsto> v)) Map.empty pairs"

text \<open>\<open>d.get(k, default)\<close>: the value stored under \<open>k\<close>, the default when there is none.\<close>

definition dict_get :: "('k \<rightharpoonup> 'v) \<Rightarrow> 'k \<Rightarrow> 'v \<Rightarrow> 'v" where
  "dict_get d k dflt = (case d k of None \<Rightarrow> dflt | Some v \<Rightarrow> v)"

text \<open>\<open>sep.join(words)\<close>.\<close>

fun join :: "string \<Rightarrow> string list \<Rightarrow> string" where
  "join sep [] = []"
| "join sep [w] = w"
| "join sep (w # v # ws) = w @ sep @ join sep (v # ws)"

text \<open>
  \<open>a[i]\<close> on the first axis of an array (or on a list): a negative index counts from the
  end, and an index outside \<open>-len(a) .. len(a) - 1\<close> raises \<open>IndexError\<close>.
\<close>

definition getitem :: "'a list \<Rightarrow> int \<Rightarrow> py_error + 'a" where
  "getitem a i =
     (if 0 \<le> i \<and> i < int (length a) then Inr (a ! nat i)
      else if i < 0 \<and> - int (length a) \<le> i then Inr (a ! nat (int (length a) + i))
      else Inl IndexError)"

text \<open>
  One statement after another, with no \<open>try\<close> around them: when the first raises, the
  rest is not run and the exception is the outcome.
\<close>

definition and_then :: "py_error + 'a \<Rightarrow> ('a \<Rightarrow> py_error + 'b) \<Rightarrow> py_error + 'b" where
  "and_then r f = (case r of Inl e \<Rightarrow> Inl e | Inr v \<Rightarrow> f v)"

section \<open>Loading the dataset\<close>

text \<open>
  The notebook reaches the dataset module \<open>imdb\<close> at two places:
  \<^verbatim>\<open>
  (X_train, y_train), (X_test, y_test) = imdb.load_data(num_words=VOCABULARY_SIZE)
  \<close>
  in the loading cell, and \<open>imdb.get_word_index()\<close> inside \<open>decode\<close>, which the
  notebook calls as \<open>decode(7337)\<close> and \<open>decode(449)\<close>. A call is recorded with its
  keyword arguments; the calls are listed in the order the cells run them.
\<close>

datatype imdb_call = LoadData "(string \<times> int) list" | GetWordIndex

fun is_load_data :: "imdb_call \<Rightarrow> bool" where
  "is_load_data (LoadData _) = True"
| "is_load_data GetWordIndex = False"

definition load_cell_calls :: "imdb_call list" where
  "load_cell_calls = [LoadData [(''num_words'', VOCABULARY_SIZE)]]"

definition decode_calls :: "int \<Rightarrow> imdb_call list" where
  "decode_calls review_index = [GetWordIndex]"

definition notebook_imdb_calls :: "imdb_call list" where
  "notebook_imdb_calls = load_cell_calls @ decode_calls 7337 @ decode_calls 449"

text \<open>
  The first review, as the loading cell prints it (\<open>print('First review', X_train[0])\<close>);
  the same cell prints its length, 218, and the length of the fifth review, 147.
\<close>

definition first_review :: "int list" where
  "first_review =
   [1, 14, 22, 16, 43, 530, 973, 1622, 1385, 65, 458, 4468, 66, 3941, 4, 173, 36, 256, 5,
     25, 100, 43, 838, 112, 50, 670, 2, 9, 35, 480, 284, 5, 150, 4, 172, 112, 167, 2, 336,
     385, 39, 4, 172, 4536, 1111, 17, 546, 38, 13, 447, 4, 192, 50, 16, 6, 147, 2025, 19,
     14, 22, 4, 1920, 4613, 469, 4, 22, 71, 87, 12, 16, 43, 530, 38, 76, 15, 13, 1247, 4,
     22, 17, 515, 17, 12, 16, 626, 18, 2, 5, 62, 386, 12, 8, 316, 8, 106, 5, 4, 2223, 5244,
     16, 480, 66, 3785, 33, 4, 130, 12, 16, 38, 619, 5, 25, 124, 51, 36, 135, 48, 25, 1415,
     33, 6, 22, 12, 215, 28, 77, 52, 5, 14, 407, 16, 82, 2, 8, 4, 107, 117, 5952, 15, 256,
     4, 2, 7, 3766, 5, 723, 36, 71, 43, 530, 476, 26, 400, 317, 46, 7, 4, 2, 1029, 13, 104,
     88, 4, 381, 15, 297, 98, 32, 2071, 56, 26, 141, 6, 194, 7486, 18, 4, 226, 22, 21, 134,
     476, 26, 480, 5, 144, 30, 5535, 18, 51, 36, 28, 224, 92, 25, 104, 4, 226, 65, 16, 38,
     1334, 88, 12, 16, 283, 5, 16, 4472, 113, 103, 32, 15, 16, 5345, 19, 178, 32]"

section \<open>Padding\<close>

text \<open>
  Modelled from the spec: the library function \<open>sequence.pad_sequences\<close>, which the
  notebook calls and does not define. The spec describes its result as a fixed-length
  integer sequence, left-padded with a sentinel value when shorter and truncated when
  longer. The model has the arguments the notebook's calls give or leave to their
  defaults (\<open>sequences\<close>, \<open>maxlen\<close>, \<open>padding\<close>, \<open>truncating\<close>, \<open>value\<close>):
  a row of \<open>maxlen\<close> copies of the sentinel is allocated, an empty sequence leaves it as
  it is, and otherwise the sequence, cut to at most \<open>maxlen\<close> entries, is written at the
  end of the row (\<open>pre\<close> padding) or at its start (\<open>post\<close>). With \<open>pre\<close> truncation
  the cut removes entries from the front. The model is for \<open>maxlen > 0\<close>, the only
  case in the notebook.
\<close>

datatype pad_mode = pre | post

definition pad_row :: "nat \<Rightarrow> pad_mode \<Rightarrow> pad_mode \<Rightarrow> int \<Rightarrow> int list \<Rightarrow> int list" where
  "pad_row maxlen padding truncating fill s =
     (let x = replicate maxlen fill in
      if s = [] then x
      else
        let trunc = (case truncating of
                       pre \<Rightarrow> drop (length s - maxlen) s
                     | post \<Rightarrow> take maxlen s)
        in (case padding of
              pre \<Rightarrow> take (maxlen - length trunc) x @ trunc
            | post \<Rightarrow> trunc @ drop (length trunc) x))"

text \<open>
  Modelled from the spec: the sentinel of \<open>pad_sequences\<close>. The rows are integer
  sequences, so the argument \<open>value\<close>, a float, is stored as an integer, without its
  fractional part.
\<close>

definition as_int32 :: "real \<Rightarrow> int" where
  "as_int32 v = (if 0 \<le> v then \<lfloor>v\<rfloor> else \<lceil>v\<rceil>)"

text \<open>
  Modelled from the spec: \<open>pad_sequences\<close> itself, every sequence padded to a row of
  the result.
\<close>

definition pad_sequences ::
  "int list list \<Rightarrow> nat \<Rightarrow> pad_mode \<Rightarrow> pad_mode \<Rightarrow> real \<Rightarrow> int list list" where
  "pad_sequences sequences maxlen padding truncating val =
     map (pad_row maxlen padding truncating (as_int32 val)) sequences"

text \<open>
  The padding cell applies one call to the training and to the test reviews:
  \<^verbatim>\<open>
  X_train = sequence.pad_sequences(X_train, maxlen=MAX_REVIEW_LENGTH)
  X_test = sequence.pad_sequences(X_test, maxlen=MAX_REVIEW_LENGTH)
  \<close>
  The call gives no \<open>value\<close>, so the sentinel is the library's default. Neither the
  notebook nor the spec says which value that is: it is the parameter \<open>default_value\<close>.
\<close>

definition pad_reviews :: "real \<Rightarrow> int list list \<Rightarrow> int list list" where
  "pad_reviews default_value X = pad_sequences X MAX_REVIEW_LENGTH pre pre default_value"

text \<open>
  The prediction inputs are padded with an explicit sentinel:
  \<^verbatim>\<open>
  padded_texts = sequence.pad_sequences(texts, maxlen=MAX_REVIEW_LENGTH, value = 0.0)
  \<close>
\<close>

definition padded_texts :: "int list list \<Rightarrow> int list list" where
  "padded_texts texts = pad_sequences texts MAX_REVIEW_LENGTH pre pre 0.0"

section \<open>Models\<close>

text \<open>
  A model is the object the notebook builds through the library's interface: the layers in
  the order they were added, the arguments of \<open>compile\<close> once it has been called, and the
  arguments of every \<open>fit\<close>. The data passed to \<open>fit\<close> are named by the notebook's
  variables. What the library computes from them is outside the notebook.
\<close>

datatype activation = relu | sigmoid

datatype layer =
    Embedding (input_dim: int) (output_dim: nat) (input_length: "nat option") (mask_zero: bool)
  | Flatten
  | Dense (units: nat) (activation: "activation option")
  | SimpleRNN nat
  | LSTM nat
  | Bidirectional layer

record compile_args =
  loss :: string
  optimizer :: string
  metrics :: "string list"

record fit_args =
  fit_x :: string
  fit_y :: string
  validation_data :: "string \<times> string"
  epochs :: nat
  batch_size :: nat
  verbose :: "nat option"

record sequential =
  layers :: "layer list"
  compiled :: "compile_args option"
  fits :: "fit_args list"

definition Sequential :: "layer list \<Rightarrow> sequential" where
  "Sequential ls = \<lparr>layers = ls, compiled = None, fits = []\<rparr>"

definition add :: "sequential \<Rightarrow> layer \<Rightarrow> sequential" where
  "add m l = m\<lparr>layers := layers m @ [l]\<rparr>"

definition compile :: "sequential \<Rightarrow> compile_args \<Rightarrow> sequential" where
  "compile m args = m\<lparr>compiled := Some args\<rparr>"

definition fit :: "sequential \<Rightarrow> fit_args \<Rightarrow> sequential" where
  "fit m args = m\<lparr>fits := fits m @ [args]\<rparr>"

text \<open>
  \<^verbatim>\<open>
  model_fnn = Sequential()
  model_fnn.add(Embedding(VOCABULARY_SIZE, EMBEDDING_DIM, input_length=MAX_REVIEW_LENGTH))
  model_fnn.add(Flatten())
  model_fnn.add(Dense(250, activation='relu'))
  model_fnn.add(Dense(1, activation='sigmoid'))
  model_fnn.compile(loss='binary_crossentropy', optimizer='adam', metrics=['accuracy'])
  model_fnn.fit(X_train, y_train, validation_data=(X_test, y_test), epochs=EPOCHS,
                batch_size=BATCH_SIZE, verbose=2)
  \<close>
\<close>

definition model_fnn :: sequential where
  "model_fnn =
     (let m = Sequential [];
          m = add m (Embedding VOCABULARY_SIZE EMBEDDING_DIM (Some MAX_REVIEW_LENGTH) False);
          m = add m Flatten;
          m = add m (Dense 250 (Some relu));
          m = add m (Dense 1 (Some sigmoid));
          m = compile m \<lparr>loss = ''binary_crossentropy'', optimizer = ''adam'',
                           metrics = [''accuracy'']\<rparr>;
          m = fit m \<lparr>fit_x = ''X_train'', fit_y = ''y_train'',
                       validation_data = (''X_test'', ''y_test''),
                       epochs = EPOCHS, batch_size = BATCH_SIZE, verbose = Some 2\<rparr>
      in m)"

text \<open>
  \<^verbatim>\<open>
  model_rnn = Sequential()
  model_rnn.add(Embedding(VOCABULARY_SIZE, EMBEDDING_DIM, input_length=MAX_REVIEW_LENGTH))
  model_rnn.add(SimpleRNN(100))
  model_rnn.add(Dense(1, activation='sigmoid'))
  model_rnn.compile(loss='binary_crossentropy', optimizer='adam', metrics=['accuracy'])
  model_rnn.fit(X_train, y_train, validation_data=(X_test, y_test), epochs=EPOCHS,
                batch_size=BATCH_SIZE)
  \<close>
\<close>

definition model_rnn :: sequential where
  "model_rnn =
     (let m = Sequential [];
          m = add m (Embedding VOCABULARY_SIZE EMBEDDING_DIM (Some MAX_REVIEW_LENGTH) False);
          m = add m (SimpleRNN 100);
          m = add m (Dense 1 (Some sigmoid));
          m = compile m \<lparr>loss = ''binary_crossentropy'', optimizer = ''adam'',
                           metrics = [''accuracy'']\<rparr>;
          m = fit m \<lparr>fit_x = ''X_train'', fit_y = ''y_train'',
                       validation_data = (''X_test'', ''y_test''),
                       epochs = EPOCHS, batch_size = BATCH_SIZE, verbose = None\<rparr>
      in m)"

text \<open>
  \<^verbatim>\<open>
  model_lstm = Sequential()
  model_lstm.add(Embedding(VOCABULARY_SIZE, EMBEDDING_DIM, input_length=MAX_REVIEW_LENGTH))
  model_lstm.add(LSTM(100))
  model_lstm.add(Dense(1, activation='sigmoid'))
  model_lstm.compile(loss='binary_crossentropy', optimizer='adam', metrics=['accuracy'])
  model_lstm.fit(X_train, y_train, validation_data=(X_test, y_test), epochs=EPOCHS,
                 batch_size=BATCH_SIZE)
  \<close>
\<close>

definition model_lstm :: sequential where
  "model_lstm =
     (let m = Sequential [];
          m = add m (Embedding VOCABULARY_SIZE EMBEDDING_DIM (Some MAX_REVIEW_LENGTH) False);
          m = add m (LSTM 100);
          m = add m (Dense 1 (Some sigmoid));
          m = compile m \<lparr>loss = ''binary_crossentropy'', optimizer = ''adam'',
                           metrics = [''accuracy'']\<rparr>;
          m = fit m \<lparr>fit_x = ''X_train'', fit_y = ''y_train'',
                       validation_data = (''X_test'', ''y_test''),
                       epochs = EPOCHS, batch_size = BATCH_SIZE, verbose = None\<rparr>
      in m)"

text \<open>
  The last cell builds a fourth model and neither compiles nor fits it:
  \<^verbatim>\<open>
  model = Sequential([Embedding(input_dim=VOCABULARY_SIZE, output_dim=64, mask_zero=True),
                      Bidirectional(LSTM(64)),
                      Dense(64, activation='relu'),Dense(1)])
  \<close>
  \<open>Dense(1)\<close> is given no activation.
\<close>

definition model :: sequential where
  "model = Sequential [Embedding VOCABULARY_SIZE 64 None True,
                       Bidirectional (LSTM 64),
                       Dense 64 (Some relu),
                       Dense 1 None]"

definition models :: "sequential list" where
  "models = [model_fnn, model_rnn, model_lstm, model]"

definition begins_with_embedding :: "sequential \<Rightarrow> bool" where
  "begins_with_embedding m = (case layers m of Embedding _ _ _ _ # _ \<Rightarrow> True | _ \<Rightarrow> False)"

definition ends_with_sigmoid :: "sequential \<Rightarrow> bool" where
  "ends_with_sigmoid m = (layers m \<noteq> [] \<and> last (layers m) = Dense 1 (Some sigmoid))"

section \<open>Decoding a review\<close>

text \<open>
  \<^verbatim>\<open>
  def decode(review_index):
      index = imdb.get_word_index()
      reverse_index = dict([(value, key) for (key, value) in index.items()])
      decoded = " ".join( [reverse_index.get(i - 3, "#") for i in X_train[review_index]] )
      print(decoded)
  \<close>
  The vocabulary index is the external table returned by \<open>imdb.get_word_index()\<close>: a
  dictionary from word to rank. The call is a parameter of the model: either the
  exception it raised or the items of the dictionary. The global \<open>X_train\<close> is a
  parameter too. The result is the line that \<open>decode\<close> prints. The entries of a review
  are \<open>int32\<close> values and \<open>i - 3\<close> is computed on wider integers, so the subtraction
  is the one of \<open>int\<close>.
\<close>

type_synonym word_index = "(string \<times> int) list"

definition reverse_index :: "word_index \<Rightarrow> (int \<rightharpoonup> string)" where
  "reverse_index index = dict_of (map (\<lambda>(key, value). (value, key)) index)"

definition decode :: "py_error + word_index \<Rightarrow> int list list \<Rightarrow> int \<Rightarrow> py_error + string" where
  "decode get_word_index X_train review_index =
     (case get_word_index of
        Inl e \<Rightarrow> Inl e
      | Inr index \<Rightarrow>
          (case getitem X_train review_index of
             Inl e \<Rightarrow> Inl e
           | Inr review \<Rightarrow>
               Inr (join '' '' (map (\<lambda>i. dict_get (reverse_index index) (i - 3) ''#'') review))))"

text \<open>
  The samples the notebook inspects. The cell that prints them:
  \<^verbatim>\<open>
  #Bad review
  decode(7337)
  print('\n' * 3)
  #Good review
  decode(449)
  \<close>
  Each call of \<open>decode\<close> calls \<open>imdb.get_word_index()\<close> again: the parameter gives the
  outcome of the first and of the second call. When \<open>decode(7337)\<close> raises, the cell
  ends and \<open>decode(449)\<close> is not run.
\<close>

definition decoded_samples ::
  "(nat \<Rightarrow> py_error + word_index) \<Rightarrow> int list list \<Rightarrow> py_error + string list" where
  "decoded_samples get_word_index X_train =
     and_then (decode (get_word_index 0) X_train 7337) (\<lambda>bad.
     and_then (decode (get_word_index 1) X_train 449) (\<lambda>good.
     Inr [bad, good]))"

text \<open>
  The sequences given to the three \<open>predict\<close> calls (after \<open>padded_texts\<close>):
  \<^verbatim>\<open>
  text_bad = X_train[7737]
  text_good = X_train[449]
  texts = (text_bad, text_good)
  \<close>
\<close>

definition texts :: "int list list \<Rightarrow> py_error + int list list" where
  "texts X_train =
     and_then (getitem X_train 7737) (\<lambda>text_bad.
     and_then (getitem X_train 449) (\<lambda>text_good.
     Inr [text_bad, text_good]))"

section \<open>The run of the notebook\<close>






section \<open>Padding: fixed length\<close>

lemma as_int32_zero: "as_int32 0 = 0"
  by (simp add: as_int32_def)

lemma pad_row_pre_length: "length (pad_row maxlen pre pre fill s) = maxlen"
  by (auto simp: pad_row_def Let_def)

lemma pad_row_pre_short:
  "length s \<le> maxlen \<Longrightarrow> pad_row maxlen pre pre fill s = replicate (maxlen - length s) fill @ s"
  by (auto simp: pad_row_def Let_def)

lemma pad_row_pre_long:
  "maxlen \<le> length s \<Longrightarrow> 0 < maxlen \<Longrightarrow> pad_row maxlen pre pre fill s = drop (length s - maxlen) s"
  by (auto simp: pad_row_def Let_def)

lemma length_first_review: "length first_review = 218"
  by (simp add: first_review_def)

text \<open>
  C1. Padding with \<open>maxlen = MAX_REVIEW_LENGTH = 500\<close> keeps the number of reviews and
  gives every review the length 500, whatever its length was before: a review shorter than
  500 is extended on the left with the sentinel (the default \<open>value\<close>, stored as an
  integer), a review longer than 500 is cut to its last 500 entries, and a review of length
  500 is unchanged.
\<close>

theorem pad_reviews_length:
  assumes "i < length X"
  shows "length (pad_reviews default_value X) = length X
       \<and> length (pad_reviews default_value X ! i) = 500
       \<and> (length (X ! i) < 500 \<longrightarrow>
            pad_reviews default_value X ! i
              = replicate (500 - length (X ! i)) (as_int32 default_value) @ X ! i)
       \<and> (500 < length (X ! i) \<longrightarrow>
            pad_reviews default_value X ! i = drop (length (X ! i) - 500) (X ! i))
       \<and> (length (X ! i) = 500 \<longrightarrow> pad_reviews default_value X ! i = X ! i)"
proof -
  let ?fill = "as_int32 default_value"
  have row: "pad_reviews default_value X ! i = pad_row 500 pre pre ?fill (X ! i)"
    using assms
    by (simp add: pad_reviews_def pad_sequences_def MAX_REVIEW_LENGTH_def)
  have len: "length (pad_reviews default_value X) = length X"
    by (simp add: pad_reviews_def pad_sequences_def)
  have short: "pad_row 500 pre pre ?fill (X ! i) = replicate (500 - length (X ! i)) ?fill @ X ! i"
    if "length (X ! i) \<le> 500"
    using that by (rule pad_row_pre_short)
  have long: "pad_row 500 pre pre ?fill (X ! i) = drop (length (X ! i) - 500) (X ! i)"
    if "500 \<le> length (X ! i)"
    using that by (simp add: pad_row_pre_long)
  show ?thesis
    unfolding row using len short long by (simp add: pad_row_pre_length)
qed

text \<open>
  With the sentinel 0, the first review of the dataset has 218 entries and receives 282
  sentinels; a review of 600 entries keeps its last 500.
\<close>

theorem pad_reviews_length_witness:
  "length first_review = 218
   \<and> length (map int [0..<600]) = 600
   \<and> length (pad_reviews 0 [first_review, map int [0..<600]] ! 0) = 500
   \<and> pad_reviews 0 [first_review, map int [0..<600]] ! 0 = replicate 282 0 @ first_review
   \<and> length (pad_reviews 0 [first_review, map int [0..<600]] ! 1) = 500
   \<and> pad_reviews 0 [first_review, map int [0..<600]] ! 1 = map int [100..<600]"
proof -
  have a: "0 < length [first_review, map int [0..<600]]" by simp
  have b: "1 < length [first_review, map int [0..<600]]" by simp
  have c: "drop 100 (map int [0..<600]) = map int [100..<600]"
    by (simp add: drop_map)
  show ?thesis
    using pad_reviews_length [OF a, of 0] pad_reviews_length [OF b, of 0] c
    by (simp add: length_first_review as_int32_zero)
qed

text \<open>
  The call with the explicit \<open>value = 0.0\<close> and the call with the default sentinel pad
  every list of sequences alike exactly when the default sentinel is stored as 0.
\<close>

lemma padded_texts_eq_pad_reviews_iff:
  "(\<forall>sequences. padded_texts sequences = pad_reviews default_value sequences)
     \<longleftrightarrow> as_int32 default_value = 0"
proof
  assume "\<forall>sequences. padded_texts sequences = pad_reviews default_value sequences"
  then have "padded_texts [[]] = pad_reviews default_value [[]]" by blast
  then have "replicate 500 (0::int) = replicate 500 (as_int32 default_value)"
    by (simp add: padded_texts_def pad_reviews_def pad_sequences_def pad_row_def
        MAX_REVIEW_LENGTH_def as_int32_zero)
  then show "as_int32 default_value = 0"
    by (simp add: replicate_eq_replicate)
next
  assume "as_int32 default_value = 0"
  then show "\<forall>sequences. padded_texts sequences = pad_reviews default_value sequences"
    by (simp add: padded_texts_def pad_reviews_def pad_sequences_def as_int32_zero)
qed

section \<open>The decoder and its failures\<close>

lemma foldl_upd_map_of:
  "foldl (\<lambda>m (k, v). m(k \<mapsto> v)) m0 pairs = m0 ++ map_of (rev pairs)"
proof (induction pairs arbitrary: m0)
  case Nil
  show ?case by simp
next
  case (Cons p pairs)
  obtain k v where p: "p = (k, v)" by (cases p)
  have "foldl (\<lambda>m (k, v). m(k \<mapsto> v)) m0 (p # pairs)
          = foldl (\<lambda>m (k, v). m(k \<mapsto> v)) (m0(k \<mapsto> v)) pairs"
    using p by simp
  also have "\<dots> = (m0(k \<mapsto> v)) ++ map_of (rev pairs)"
    by (rule Cons.IH)
  also have "\<dots> = m0 ++ map_of (rev pairs @ [(k, v)])"
    by (rule ext) (simp add: map_add_def split: option.splits)
  finally show ?case by (simp only: p rev.simps)
qed

lemma dict_of_map_of: "dict_of pairs = map_of (rev pairs)"
  by (simp add: dict_of_def foldl_upd_map_of)

lemma reverse_index_Some_mem:
  "reverse_index index r = Some w \<Longrightarrow> (w, r) \<in> set index"
proof -
  assume "reverse_index index r = Some w"
  then have "(r, w) \<in> set (rev (map (\<lambda>(key, value). (value, key)) index))"
    unfolding reverse_index_def dict_of_map_of by (rule map_of_SomeD)
  then show ?thesis by auto
qed

lemma reverse_index_None_iff:
  "reverse_index index r = None \<longleftrightarrow> r \<notin> snd ` set index"
proof -
  have "fst ` set (rev (map (\<lambda>(key, value). (value, key)) index)) = snd ` set index"
    by force
  then show ?thesis
    unfolding reverse_index_def dict_of_map_of map_of_eq_None_iff by simp
qed

lemma dict_get_reverse_index_cases:
  "(r \<in> snd ` set index \<and> (dict_get (reverse_index index) r ''#'', r) \<in> set index)
   \<or> (r \<notin> snd ` set index \<and> dict_get (reverse_index index) r ''#'' = ''#'')"
proof (cases "reverse_index index r")
  case None
  with reverse_index_None_iff [of index r] have "r \<notin> snd ` set index"
    by blast
  with None show ?thesis
    by (simp add: dict_get_def)
next
  case (Some w)
  then have "(w, r) \<in> set index" by (rule reverse_index_Some_mem)
  then have "r \<in> snd ` set index" by force
  with Some \<open>(w, r) \<in> set index\<close> show ?thesis
    by (simp add: dict_get_def)
qed


section \<open>The run and its failures\<close>




lemma getitem_Inl:
  "getitem a i = Inl e \<Longrightarrow> e = IndexError"
  by (auto simp: getitem_def split: if_splits)














section \<open>The inspected samples\<close>

text \<open>
  C3. The review decoded under the comment \<open>#Bad review\<close> is \<open>X_train[7337]\<close>, the
  sequence given to the models is \<open>X_train[7737]\<close>. On a training set whose rows 7337
  and 7737 differ (7337 rows \<open>[4]\<close>, the row \<open>[5]\<close>, 400 rows \<open>[4]\<close>) the printed
  text is \<open>and\<close>, while the sequence predicted on is \<open>[4]\<close>, whose text is \<open>the\<close>.
  For the good review both cells use the row 449.
\<close>

theorem decoded_bad_review_is_not_predicted_one:
  "decoded_samples (\<lambda>n. Inr [(''the'', 1), (''and'', 2)])
       (replicate 7337 [4] @ [[5]] @ replicate 400 [4]) = Inr [''and'', ''the'']
   \<and> texts (replicate 7337 [4] @ [[5]] @ replicate 400 [4]) = Inr [[4], [4]]
   \<and> decode (Inr [(''the'', 1), (''and'', 2)])
       (replicate 7337 [4] @ [[5]] @ replicate 400 [4]) 7737 = Inr ''the''"
  by (simp add: decoded_samples_def texts_def and_then_def decode_def getitem_def nth_append
      reverse_index_def dict_of_def dict_get_def)

section \<open>The models\<close>

lemma model_fnn_eq:
  "model_fnn = \<lparr>layers = [Embedding 10000 100 (Some 500) False, Flatten, Dense 250 (Some relu),
                           Dense 1 (Some sigmoid)],
                 compiled = Some \<lparr>loss = ''binary_crossentropy'', optimizer = ''adam'',
                                   metrics = [''accuracy'']\<rparr>,
                 fits = [\<lparr>fit_x = ''X_train'', fit_y = ''y_train'',
                          validation_data = (''X_test'', ''y_test''),
                          epochs = 2, batch_size = 128, verbose = Some 2\<rparr>]\<rparr>"
  by (simp add: model_fnn_def Sequential_def add_def compile_def fit_def
      VOCABULARY_SIZE_def EMBEDDING_DIM_def MAX_REVIEW_LENGTH_def EPOCHS_def BATCH_SIZE_def)

lemma model_rnn_eq:
  "model_rnn = \<lparr>layers = [Embedding 10000 100 (Some 500) False, SimpleRNN 100,
                           Dense 1 (Some sigmoid)],
                 compiled = Some \<lparr>loss = ''binary_crossentropy'', optimizer = ''adam'',
                                   metrics = [''accuracy'']\<rparr>,
                 fits = [\<lparr>fit_x = ''X_train'', fit_y = ''y_train'',
                          validation_data = (''X_test'', ''y_test''),
                          epochs = 2, batch_size = 128, verbose = None\<rparr>]\<rparr>"
  by (simp add: model_rnn_def Sequential_def add_def compile_def fit_def
      VOCABULARY_SIZE_def EMBEDDING_DIM_def MAX_REVIEW_LENGTH_def EPOCHS_def BATCH_SIZE_def)

lemma model_lstm_eq:
  "model_lstm = \<lparr>layers = [Embedding 10000 100 (Some 500) False, LSTM 100,
                            Dense 1 (Some sigmoid)],
                  compiled = Some \<lparr>loss = ''binary_crossentropy'', optimizer = ''adam'',
                                    metrics = [''accuracy'']\<rparr>,
                  fits = [\<lparr>fit_x = ''X_train'', fit_y = ''y_train'',
                           validation_data = (''X_test'', ''y_test''),
                           epochs = 2, batch_size = 128, verbose = None\<rparr>]\<rparr>"
  by (simp add: model_lstm_def Sequential_def add_def compile_def fit_def
      VOCABULARY_SIZE_def EMBEDDING_DIM_def MAX_REVIEW_LENGTH_def EPOCHS_def BATCH_SIZE_def)

lemma model_eq:
  "model = \<lparr>layers = [Embedding 10000 64 None True, Bidirectional (LSTM 64),
                       Dense 64 (Some relu), Dense 1 None],
             compiled = None, fits = []\<rparr>"
  by (simp add: model_def Sequential_def VOCABULARY_SIZE_def)

text \<open>
  The fourth model is one of the models the notebook constructs, and its last layer is not
  a sigmoid output layer.
\<close>

theorem last_model_not_sigmoid:
  "model \<in> set models \<and> \<not> ends_with_sigmoid model"
  by (simp add: models_def ends_with_sigmoid_def model_eq)

text \<open>
  C4, amended. Each of the four models is a list of layers that begins with an embedding
  layer. The three trained models end with a single-unit dense layer with sigmoid
  activation; the fourth model ends with a single-unit dense layer without activation.
\<close>

theorem models_embedding_first_output_last:
  "list_all begins_with_embedding models
   \<and> list_all ends_with_sigmoid [model_fnn, model_rnn, model_lstm]
   \<and> last (layers model) = Dense 1 None"
  by (simp add: models_def begins_with_embedding_def ends_with_sigmoid_def
      model_fnn_eq model_rnn_eq model_lstm_eq model_eq)

section \<open>Total decoding\<close>

text \<open>
  C5. For every vocabulary index and every review that \<open>X_train[review_index]\<close> yields,
  \<open>decode\<close> returns a line: the words, one for each token index, joined by spaces. The
  word for the index \<open>i\<close> is a word of rank \<open>i - 3\<close> when the vocabulary has that rank
  and \<open>#\<close> otherwise. As ranks start at 1, the indices 0, 1, 2 and 3 are printed as \<open>#\<close>.
\<close>

theorem decode_total:
  assumes "getitem X_train review_index = Inr tokens"
  shows "\<exists>ws. decode (Inr index) X_train review_index = Inr (join '' '' ws)
           \<and> length ws = length tokens
           \<and> (\<forall>k<length tokens.
                 (tokens ! k - 3 \<in> snd ` set index \<longrightarrow> (ws ! k, tokens ! k - 3) \<in> set index)
               \<and> (tokens ! k - 3 \<notin> snd ` set index \<longrightarrow> ws ! k = ''#'')
               \<and> ((\<forall>(w, r)\<in>set index. 1 \<le> r) \<and> tokens ! k \<in> {0, 1, 2, 3} \<longrightarrow> ws ! k = ''#''))"
proof -
  let ?render = "\<lambda>i. dict_get (reverse_index index) (i - 3) ''#''"
  let ?ws = "map ?render tokens"
  have out: "decode (Inr index) X_train review_index = Inr (join '' '' ?ws)"
    using assms by (simp add: decode_def)
  have each: "(tokens ! k - 3 \<in> snd ` set index \<longrightarrow> (?ws ! k, tokens ! k - 3) \<in> set index)
               \<and> (tokens ! k - 3 \<notin> snd ` set index \<longrightarrow> ?ws ! k = ''#'')
               \<and> ((\<forall>(w, r)\<in>set index. 1 \<le> r) \<and> tokens ! k \<in> {0, 1, 2, 3} \<longrightarrow> ?ws ! k = ''#'')"
    if k: "k < length tokens" for k
  proof -
    have render: "?ws ! k = ?render (tokens ! k)"
      using k by simp
    have low: "tokens ! k - 3 \<notin> snd ` set index"
      if "\<forall>(w, r)\<in>set index. 1 \<le> r" and "tokens ! k \<in> {0, 1, 2, 3}"
    proof
      assume "tokens ! k - 3 \<in> snd ` set index"
      then obtain w where "(w, tokens ! k - 3) \<in> set index" by force
      with that(1) have "1 \<le> tokens ! k - 3" by blast
      with that(2) show False by auto
    qed
    show ?thesis
      using dict_get_reverse_index_cases [of "tokens ! k - 3" index] low
      unfolding render by blast
  qed
  show ?thesis
    using out each by (intro exI [of _ ?ws]) simp
qed

theorem decode_total_witness:
  "getitem [[0, 4, 5, 3, 99 :: int]] 0 = Inr [0, 4, 5, 3, 99]
   \<and> list_all (\<lambda>(w, r). 1 \<le> r) [(''the'', 1::int), (''and'', 2)]
   \<and> decode (Inr [(''the'', 1), (''and'', 2)]) [[0, 4, 5, 3, 99]] 0 = Inr ''# the and # #''
   \<and> (\<exists>ws. decode (Inr [(''the'', 1), (''and'', 2)]) [[0, 4, 5, 3, 99]] 0 = Inr (join '' '' ws)
         \<and> length ws = 5 \<and> ws ! 0 = ''#'' \<and> ws ! 3 = ''#'')"
proof -
  have h: "getitem [[0, 4, 5, 3, 99]] 0 = Inr [0, 4, 5, 3, 99 :: int]"
    by (simp add: getitem_def)
  have r: "\<forall>(w, r)\<in>set [(''the'', 1::int), (''and'', 2)]. 1 \<le> r"
    by simp
  obtain ws where ws:
      "decode (Inr [(''the'', 1), (''and'', 2)]) [[0, 4, 5, 3, 99]] 0 = Inr (join '' '' ws)"
      "length ws = 5"
      "\<forall>k<5. ((\<forall>(w, r)\<in>set [(''the'', 1::int), (''and'', 2)]. 1 \<le> r)
                 \<and> [0, 4, 5, 3, 99 :: int] ! k \<in> {0, 1, 2, 3}
               \<longrightarrow> ws ! k = ''#'')"
    using decode_total [OF h, of "[(''the'', 1), (''and'', 2)]"] by auto
  from ws(3) r have "ws ! 0 = ''#''" "ws ! 3 = ''#''"
    by (auto simp: numeral_eq_Suc)
  with ws(1,2) have ex:
    "\<exists>ws. decode (Inr [(''the'', 1), (''and'', 2)]) [[0, 4, 5, 3, 99]] 0 = Inr (join '' '' ws)
         \<and> length ws = 5 \<and> ws ! 0 = ''#'' \<and> ws ! 3 = ''#''"
    by blast
  have out: "decode (Inr [(''the'', 1), (''and'', 2)]) [[0, 4, 5, 3, 99]] 0 = Inr ''# the and # #''"
    by (simp add: decode_def getitem_def reverse_index_def dict_of_def dict_get_def)
  have r': "list_all (\<lambda>(w, r). 1 \<le> r) [(''the'', 1::int), (''and'', 2)]"
    by simp
  show ?thesis using h r' out ex by blast
qed

section \<open>Training and loading\<close>

text \<open>
  C6. Each of the three trained models is fitted once, for \<open>EPOCHS = 2\<close> epochs, on
  \<open>X_train\<close> and \<open>y_train\<close>, and each is compiled with the optimizer \<open>adam\<close> and the
  loss \<open>binary_crossentropy\<close>.
\<close>

theorem trained_models_same_epochs_optimizer_loss:
  "EPOCHS = 2
   \<and> map (\<lambda>m. map epochs (fits m)) [model_fnn, model_rnn, model_lstm]
       = [[EPOCHS], [EPOCHS], [EPOCHS]]
   \<and> map (\<lambda>m. map (\<lambda>a. (fit_x a, fit_y a)) (fits m)) [model_fnn, model_rnn, model_lstm]
       = replicate 3 [(''X_train'', ''y_train'')]
   \<and> map (map_option optimizer \<circ> compiled) [model_fnn, model_rnn, model_lstm]
       = replicate 3 (Some ''adam'')
   \<and> map (map_option loss \<circ> compiled) [model_fnn, model_rnn, model_lstm]
       = replicate 3 (Some ''binary_crossentropy'')"
  by (simp add: model_fnn_eq model_rnn_eq model_lstm_eq EPOCHS_def numeral_3_eq_3)

text \<open>
  C7. Among the calls of the dataset module there is exactly one \<open>load_data\<close>, and its
  only argument is \<open>num_words = VOCABULARY_SIZE = 10000\<close>.
\<close>

theorem dataset_loaded_once:
  "filter is_load_data notebook_imdb_calls = [LoadData [(''num_words'', 10000)]]
   \<and> VOCABULARY_SIZE = 10000"
  by (simp add: notebook_imdb_calls_def load_cell_calls_def decode_calls_def VOCABULARY_SIZE_def)

section \<open>The reverse index\<close>

text \<open>
  C8. The reverse index built inside \<open>decode\<close> inverts the vocabulary index: when the
  index gives distinct words distinct ranks, looking up the rank of any word of the index
  in the reverse index returns that word.
\<close>

theorem reverse_index_roundtrip:
  assumes "distinct (map snd index)" and "(w, r) \<in> set index"
  shows "reverse_index index r = Some w"
proof -
  let ?swapped = "map (\<lambda>(key, value). (value, key)) index"
  have "map fst (rev ?swapped) = rev (map snd index)"
    by (induction index) auto
  then have "distinct (map fst (rev ?swapped))"
    using assms(1) by (simp only: distinct_rev)
  moreover have "(r, w) \<in> set (rev ?swapped)"
    using assms(2) by force
  ultimately have "map_of (rev ?swapped) r = Some w"
    by (rule map_of_is_SomeI)
  then show ?thesis
    by (simp add: reverse_index_def dict_of_map_of)
qed

theorem reverse_index_roundtrip_witness:
  "distinct (map snd [(''the'', 1::int), (''and'', 2), (''a'', 3)])
   \<and> (''and'', 2) \<in> set [(''the'', 1::int), (''and'', 2), (''a'', 3)]
   \<and> reverse_index [(''the'', 1), (''and'', 2), (''a'', 3)] 2 = Some ''and''"
  using reverse_index_roundtrip [of "[(''the'', 1), (''and'', 2), (''a'', 3)]" "''and''" 2]
  by simp

end
